theory Spec2Isabelle
  imports Main "HOL-Library.AList"
begin

section \<open>Exceptions\<close>

text \<open>
  The Python exceptions the program can meet, each with the text of \<open>str(e)\<close>.
  \<open>raise ValueError\<close> and \<open>raise KeyError\<close> without arguments carry the empty text.
  \<open>OSError\<close> stands for the failures of \<open>open\<close> other than a missing file; it is the only
  exception of the model that reaches the last clause of \<open>input_error\<close>.
\<close>

datatype exn = ValueError string | IndexError string | KeyError string | OSError string

section \<open>Calendar dates (Python's \<open>datetime.date\<close>)\<close>

text \<open>
  \<open>datetime.date\<close> is part of Python's standard library. The definitions below follow its
  reference implementation: the proleptic Gregorian calendar, years 1 to 9999, the ordinal
  of a date counted from 0001-01-01 = 1, and \<open>weekday()\<close> = (ordinal + 6) mod 7 with
  0 = Monday.
\<close>

record date =
  year :: nat
  month :: nat
  day :: nat

definition is_leap :: "nat \<Rightarrow> bool" where
  "is_leap y \<longleftrightarrow> y mod 4 = 0 \<and> (y mod 100 \<noteq> 0 \<or> y mod 400 = 0)"

definition DAYS_IN_MONTH :: "nat list" where
  "DAYS_IN_MONTH = [31, 28, 31, 30, 31, 30, 31, 31, 30, 31, 30, 31]"

definition days_in_month :: "nat \<Rightarrow> nat \<Rightarrow> nat" where
  "days_in_month y m = (if m = 2 \<and> is_leap y then 29 else DAYS_IN_MONTH ! (m - 1))"

definition days_before_year :: "nat \<Rightarrow> int" where
  "days_before_year y = (let z = int y - 1 in z * 365 + z div 4 - z div 100 + z div 400)"

definition days_before_month :: "nat \<Rightarrow> nat \<Rightarrow> int" where
  "days_before_month y m =
     int (sum_list (take (m - 1) DAYS_IN_MONTH)) + (if 2 < m \<and> is_leap y then 1 else 0)"

definition toordinal :: "date \<Rightarrow> int" where
  "toordinal d = days_before_year (year d) + days_before_month (year d) (month d) + int (day d)"

definition valid_date :: "date \<Rightarrow> bool" where
  "valid_date d \<longleftrightarrow>
     1 \<le> year d \<and> year d \<le> 9999 \<and> 1 \<le> month d \<and> month d \<le> 12 \<and>
     1 \<le> day d \<and> day d \<le> days_in_month (year d) (month d)"

text \<open>\<open>str(n)\<close> for a natural number: its decimal digits.\<close>

definition digit_char :: "nat \<Rightarrow> char" where
  "digit_char n = ''0123456789'' ! n"

fun str_nat :: "nat \<Rightarrow> string" where
  "str_nat n =
     (if n < 10 then [digit_char n] else str_nat (n div 10) @ [digit_char (n mod 10)])"

declare str_nat.simps [simp del]

text \<open>The constructor \<open>date(year, month, day)\<close>: it checks the year, the month and the day,
  in this order, and raises \<open>ValueError\<close>.\<close>

definition make_date :: "nat \<Rightarrow> nat \<Rightarrow> nat \<Rightarrow> exn + date" where
  "make_date y m d =
     (if \<not> (1 \<le> y \<and> y \<le> 9999) then Inl (ValueError (''year '' @ str_nat y @ '' is out of range''))
      else if \<not> (1 \<le> m \<and> m \<le> 12) then Inl (ValueError ''month must be in 1..12'')
      else if \<not> (1 \<le> d \<and> d \<le> days_in_month y m) then Inl (ValueError ''day is out of range for month'')
      else Inr \<lparr>year = y, month = m, day = d\<rparr>)"

text \<open>\<open>d.replace(year=y)\<close> builds a new date through the constructor.\<close>

definition replace_year :: "date \<Rightarrow> nat \<Rightarrow> exn + date" where
  "replace_year d y = make_date y (month d) (day d)"

text \<open>Dates compare as the triples (year, month, day).\<close>

definition date_less :: "date \<Rightarrow> date \<Rightarrow> bool" where
  "date_less a b \<longleftrightarrow>
     year a < year b \<or> (year a = year b \<and> (month a < month b \<or> (month a = month b \<and> day a < day b)))"

text \<open>\<open>(a - b).days\<close>.\<close>

definition days_between :: "date \<Rightarrow> date \<Rightarrow> int" where
  "days_between a b = toordinal a - toordinal b"

definition weekday :: "date \<Rightarrow> nat" where
  "weekday d = nat ((toordinal d + 6) mod 7)"

definition DAY_NAMES :: "string list" where
  "DAY_NAMES = [''Monday'', ''Tuesday'', ''Wednesday'', ''Thursday'', ''Friday'', ''Saturday'', ''Sunday'']"

text \<open>\<open>d.strftime('%A')\<close> in the C locale, which the program never changes.\<close>

definition strftime_A :: "date \<Rightarrow> string" where
  "strftime_A d = DAY_NAMES ! weekday d"

section \<open>Records and the address book\<close>

text \<open>
  A \<open>Record\<close> has a name, the values of its \<open>Phone\<close> objects in list order, and the
  \<open>birthday\<close> attribute, which exists only after \<open>add_birthday\<close> (\<open>None\<close> = no attribute).
  The \<open>AddressBook\<close> is a dict, which keeps insertion order: an association list, where
  storing under an existing key keeps the key's position (\<open>AList.update\<close>).
\<close>

record Record =
  name :: string
  phones :: "string list"
  birthday :: "date option"

type_synonym AddressBook = "(string \<times> Record) list"

definition Record_init :: "string \<Rightarrow> Record" where
  "Record_init n = \<lparr>name = n, phones = [], birthday = None\<rparr>"

definition add_record :: "Record \<Rightarrow> AddressBook \<Rightarrow> AddressBook" where
  "add_record r book = AList.update (name r) r book"

definition find :: "AddressBook \<Rightarrow> string \<Rightarrow> Record option" where
  "find book n = map_of book n"

section \<open>The weekly birthday query\<close>

type_synonym buckets = "(string \<times> string list) list"

text \<open>\<open>birthdays[weekday].append(name)\<close> on a \<open>defaultdict(list)\<close>.\<close>

definition bucket_append :: "string \<Rightarrow> string \<Rightarrow> buckets \<Rightarrow> buckets" where
  "bucket_append w n bs =
     AList.update w ((case map_of bs w of None \<Rightarrow> [] | Some ns \<Rightarrow> ns) @ [n]) bs"

definition users_of :: "AddressBook \<Rightarrow> (string \<times> date) list" where
  "users_of book = List.map_filter (\<lambda>(n, r). map_option (\<lambda>b. (n, b)) (birthday r)) book"

fun birthdays_loop :: "date \<Rightarrow> (string \<times> date) list \<Rightarrow> buckets \<Rightarrow> exn + buckets" where
  "birthdays_loop today [] birthdays = Inr birthdays"
| "birthdays_loop today ((n, b) # users) birthdays =
     (case replace_year b (year today) of
        Inl e \<Rightarrow> Inl e
      | Inr bty \<Rightarrow>
          (case (if date_less bty today then replace_year bty (year today + 1) else Inr bty) of
             Inl e \<Rightarrow> Inl e
           | Inr bty' \<Rightarrow>
               (if days_between bty' today < 7
                then birthdays_loop today users
                       (bucket_append
                          (let w = strftime_A bty' in if w \<in> set [''Saturday'', ''Sunday''] then ''Monday'' else w)
                          n birthdays)
                else birthdays_loop today users birthdays)))"

text \<open>\<open>today\<close> is the value of \<open>datetime.today().date()\<close>.\<close>

definition get_birthdays_per_week :: "date \<Rightarrow> AddressBook \<Rightarrow> exn + buckets" where
  "get_birthdays_per_week today book = birthdays_loop today (users_of book) []"

text \<open>
  The words of the specification, for the statements below: the list under a weekday name
  (empty when the key is absent), the occurrence of a birthday (the year replaced by today's
  year, or by the next year when that date is strictly before today), and the bucket of an
  occurrence (its weekday name, a weekend day reported under Monday).
\<close>

definition bucket :: "buckets \<Rightarrow> string \<Rightarrow> string list" where
  "bucket bs w = (case map_of bs w of None \<Rightarrow> [] | Some ns \<Rightarrow> ns)"

definition occurrence :: "date \<Rightarrow> date \<Rightarrow> date" where
  "occurrence today b =
     (let occ = b\<lparr>year := year today\<rparr>
      in if date_less occ today then b\<lparr>year := year today + 1\<rparr> else occ)"

definition bucket_name :: "date \<Rightarrow> string" where
  "bucket_name d = (let w = strftime_A d in if w \<in> set [''Saturday'', ''Sunday''] then ''Monday'' else w)"

section \<open>Phone numbers and the operations of a record\<close>

text \<open>
  A Python \<open>str\<close> is modelled as a \<open>string\<close> whose characters are the code points below
  256. In this range the class \<open>\d\<close> of \<open>re\<close> matches the ten ASCII digits only.
  \<open>re.match(r"^\d{10}$", value)\<close>: ten digits from the start of the string, then \<open>$\<close>,
  which matches at the end of the string and also just before a newline that ends the string.
  A \<open>Phone\<close> object is represented by its value.
\<close>

definition is_digit :: "char \<Rightarrow> bool" where
  "is_digit c \<longleftrightarrow> c \<in> set ''0123456789''"

definition at_dollar :: "string \<Rightarrow> bool" where
  "at_dollar rest \<longleftrightarrow> rest = [] \<or> rest = [CHR 0x0A]"

definition Phone_validate :: "string \<Rightarrow> bool" where
  "Phone_validate v \<longleftrightarrow>
     length (take 10 v) = 10 \<and> list_all is_digit (take 10 v) \<and> at_dollar (drop 10 v)"

definition Phone_init :: "string \<Rightarrow> exn + string" where
  "Phone_init v =
     (if \<not> Phone_validate v then Inl (ValueError ''Phone number must have 10 digits.'') else Inr v)"

definition add_phone :: "string \<Rightarrow> Record \<Rightarrow> exn + Record" where
  "add_phone phone r =
     (case Phone_init phone of Inl e \<Rightarrow> Inl e | Inr p \<Rightarrow> Inr (r\<lparr>phones := phones r @ [p]\<rparr>))"

text \<open>
  \<open>remove_phone\<close> iterates over \<open>self.phones\<close> while removing from it: the list iterator
  keeps an index and reads the current list at every step. \<open>Phone\<close> defines no \<open>__eq__\<close>,
  so \<open>list.remove(p)\<close> removes the object \<open>p\<close> itself; the entries are tagged with their
  original positions, which stand for the identities of the objects.
\<close>

function remove_loop :: "nat \<Rightarrow> string \<Rightarrow> (nat \<times> string) list \<Rightarrow> (nat \<times> string) list" where
  "remove_loop i phone ps =
     (if i < length ps
      then (if snd (ps ! i) = phone
            then remove_loop (i + 1) phone (remove1 (ps ! i) ps)
            else remove_loop (i + 1) phone ps)
      else ps)"
  by pat_completeness auto
termination
  by (relation "measure (\<lambda>(i, phone, ps). length ps - i)") (auto simp: length_remove1)

declare remove_loop.simps [simp del]

definition remove_phone :: "string \<Rightarrow> Record \<Rightarrow> Record" where
  "remove_phone phone r = r\<lparr>phones := map snd (remove_loop 0 phone (enumerate 0 (phones r)))\<rparr>"

text \<open>
  \<open>edit_phone\<close> assigns in place while enumerating; \<open>Phone(new_phone)\<close> is constructed at
  every match. The result is the exception raised, if any, and the list as it is then.
\<close>

function edit_loop :: "nat \<Rightarrow> string \<Rightarrow> string \<Rightarrow> string list \<Rightarrow> exn option \<times> string list" where
  "edit_loop i old new ps =
     (if i < length ps
      then (if ps ! i = old
            then (case Phone_init new of
                    Inl e \<Rightarrow> (Some e, ps)
                  | Inr p \<Rightarrow> edit_loop (i + 1) old new (ps[i := p]))
            else edit_loop (i + 1) old new ps)
      else (None, ps))"
  by pat_completeness auto
termination
  by (relation "measure (\<lambda>(i, old, new, ps). length ps - i)") auto

declare edit_loop.simps [simp del]

definition edit_phone :: "string \<Rightarrow> string \<Rightarrow> Record \<Rightarrow> exn option \<times> Record" where
  "edit_phone old new r = (case edit_loop 0 old new (phones r) of (e, ps) \<Rightarrow> (e, r\<lparr>phones := ps\<rparr>))"

text \<open>The specification's reading of \<open>editPhone\<close>: only the first entry equal to the old
  value is replaced.\<close>

fun replace_first :: "string \<Rightarrow> string \<Rightarrow> string list \<Rightarrow> string list" where
  "replace_first old new [] = []"
| "replace_first old new (p # ps) = (if p = old then new # ps else p # replace_first old new ps)"

section \<open>Birthdays: \<open>strptime\<close> and \<open>strftime\<close>\<close>

text \<open>
  \<open>datetime.strptime(value, "%d.%m.%Y")\<close> compiles the format to the regular expression
  \<^verbatim>\<open>(?P<d>3[0-1]|[1-2]\d|0[1-9]|[1-9]| [1-9])\.(?P<m>1[0-2]|0[1-9]|[1-9])\.(?P<Y>\d\d\d\d)\<close>,
  takes its first match at the start of the string, raises \<open>ValueError\<close> when there is none
  or when the match does not reach the end of the string, converts the three groups with
  \<open>int\<close> and builds the date, which raises \<open>ValueError\<close> for a date that does not exist.
  A group is modelled by the list of its matches at the start of a string, each with the
  rest of the string, in the order of its alternatives; the matches of the whole
  expression are listed in the order a backtracking matcher finds them. The texts of the
  errors of \<open>strptime\<close> are abbreviated: \<open>Birthday.validate\<close> discards them.
\<close>

definition digit_val :: "char \<Rightarrow> nat" where
  "digit_val c = of_char c - 48"

definition py_int :: "string \<Rightarrow> nat" where
  "py_int s = foldl (\<lambda>a c. 10 * a + digit_val c) 0 (dropWhile (\<lambda>c. c = CHR '' '') s)"

fun one :: "(char \<Rightarrow> bool) \<Rightarrow> string \<Rightarrow> (string \<times> string) list" where
  "one A (c # r) = (if A c then [([c], r)] else [])"
| "one A [] = []"

fun two :: "(char \<Rightarrow> bool) \<Rightarrow> (char \<Rightarrow> bool) \<Rightarrow> string \<Rightarrow> (string \<times> string) list" where
  "two A B (c1 # c2 # r) = (if A c1 \<and> B c2 then [([c1, c2], r)] else [])"
| "two A B r = []"

definition re_d :: "string \<Rightarrow> (string \<times> string) list" where
  "re_d s =
     two (\<lambda>c. c = CHR ''3'') (\<lambda>c. c \<in> set ''01'') s @
     two (\<lambda>c. c \<in> set ''12'') is_digit s @
     two (\<lambda>c. c = CHR ''0'') (\<lambda>c. c \<in> set ''123456789'') s @
     one (\<lambda>c. c \<in> set ''123456789'') s @
     two (\<lambda>c. c = CHR '' '') (\<lambda>c. c \<in> set ''123456789'') s"

definition re_m :: "string \<Rightarrow> (string \<times> string) list" where
  "re_m s =
     two (\<lambda>c. c = CHR ''1'') (\<lambda>c. c \<in> set ''012'') s @
     two (\<lambda>c. c = CHR ''0'') (\<lambda>c. c \<in> set ''123456789'') s @
     one (\<lambda>c. c \<in> set ''123456789'') s"

definition re_Y :: "string \<Rightarrow> (string \<times> string) list" where
  "re_Y s =
     (if 4 \<le> length s \<and> list_all is_digit (take 4 s) then [(take 4 s, drop 4 s)] else [])"

definition re_dot :: "string \<Rightarrow> string list" where
  "re_dot s = (case s of [] \<Rightarrow> [] | c # r \<Rightarrow> if c = CHR ''.'' then [r] else [])"

definition format_regex_match :: "string \<Rightarrow> (string \<times> string \<times> string \<times> string) list" where
  "format_regex_match s =
     [(d, m, y, r5). (d, r1) \<leftarrow> re_d s, r2 \<leftarrow> re_dot r1, (m, r3) \<leftarrow> re_m r2,
                     r4 \<leftarrow> re_dot r3, (y, r5) \<leftarrow> re_Y r4]"

definition strptime :: "string \<Rightarrow> exn + date" where
  "strptime s =
     (case format_regex_match s of
        [] \<Rightarrow> Inl (ValueError ''time data does not match format'')
      | (d, m, y, rest) # _ \<Rightarrow>
          if rest \<noteq> [] then Inl (ValueError (''unconverted data remains: '' @ rest))
          else make_date (py_int y) (py_int m) (py_int d))"

definition Birthday_validate :: "string \<Rightarrow> bool" where
  "Birthday_validate v = (case strptime v of Inl e \<Rightarrow> False | Inr d \<Rightarrow> True)"

definition Birthday_init :: "string \<Rightarrow> exn + date" where
  "Birthday_init v =
     (if \<not> Birthday_validate v then Inl (ValueError ''Birthday must be in the format DD.MM.YYYY'')
      else strptime v)"

text \<open>
  \<open>strftime("%d.%m.%Y")\<close> writes the day and the month with two digits. \<open>%Y\<close> is written
  by the C library of the platform: with four digits on some, and without padding on
  others (with glibc, \<open>date(999, 1, 1).strftime("%Y")\<close> is \<open>"999"\<close>). The platform is a
  parameter of the model.
\<close>

datatype platform = Pads_year | Plain_year

definition zfill :: "nat \<Rightarrow> string \<Rightarrow> string" where
  "zfill w s = replicate (w - length s) CHR ''0'' @ s"

definition strftime_Y :: "platform \<Rightarrow> nat \<Rightarrow> string" where
  "strftime_Y pf y = (case pf of Pads_year \<Rightarrow> zfill 4 (str_nat y) | Plain_year \<Rightarrow> str_nat y)"

definition Birthday_str :: "platform \<Rightarrow> date \<Rightarrow> string" where
  "Birthday_str pf b =
     zfill 2 (str_nat (day b)) @ ''.'' @ zfill 2 (str_nat (month b)) @ ''.'' @ strftime_Y pf (year b)"

definition Record_add_birthday :: "string \<Rightarrow> Record \<Rightarrow> exn + Record" where
  "Record_add_birthday v r =
     (case Birthday_init v of Inl e \<Rightarrow> Inl e | Inr b \<Rightarrow> Inr (r\<lparr>birthday := Some b\<rparr>))"

definition get_birthday :: "platform \<Rightarrow> Record \<Rightarrow> string" where
  "get_birthday pf r = (case birthday r of Some b \<Rightarrow> Birthday_str pf b | None \<Rightarrow> ''Birthday not set'')"

fun join :: "string \<Rightarrow> string list \<Rightarrow> string" where
  "join sep [] = []"
| "join sep [x] = x"
| "join sep (x # y # xs) = x @ sep @ join sep (y # xs)"

definition Record_str :: "Record \<Rightarrow> string" where
  "Record_str r = ''Contact name: '' @ name r @ '', phones: '' @ join ''; '' (phones r)"

section \<open>Persistence\<close>

text \<open>
  The file holds a JSON object from names to \<open>{"phones": [...], "birthday": string | null}\<close>;
  \<open>json.dump\<close> and \<open>json.load\<close> are inverse on such data, so the file is modelled by the
  object itself, \<open>None\<close> when the file does not exist. \<open>w_open_error\<close> is the text of the
  \<open>OSError\<close> that \<open>open\<close> raises when the file cannot be opened for another reason. The
  world also holds what the program reads from its environment: the book, today's date
  and the platform.
\<close>

type_synonym json_data = "(string \<times> string list \<times> string option) list"

record world =
  w_book :: AddressBook
  w_file :: "json_data option"
  w_open_error :: "string option"
  w_today :: date
  w_platform :: platform

definition to_json :: "platform \<Rightarrow> AddressBook \<Rightarrow> json_data" where
  "to_json pf bk = map (\<lambda>(n, r). (n, phones r, map_option (Birthday_str pf) (birthday r))) bk"

definition save_to_disk :: "world \<Rightarrow> (exn + unit) \<times> world" where
  "save_to_disk w =
     (case w_open_error w of
        Some m \<Rightarrow> (Inl (OSError m), w)
      | None \<Rightarrow> (Inr (), w\<lparr>w_file := Some (to_json (w_platform w) (w_book w))\<rparr>))"

fun load_phones :: "string list \<Rightarrow> Record \<Rightarrow> exn + Record" where
  "load_phones [] r = Inr r"
| "load_phones (p # ps) r = (case add_phone p r of Inl e \<Rightarrow> Inl e | Inr r' \<Rightarrow> load_phones ps r')"

fun load_items :: "json_data \<Rightarrow> AddressBook \<Rightarrow> (exn + unit) \<times> AddressBook" where
  "load_items [] bk = (Inr (), bk)"
| "load_items ((n, ps, bd) # items) bk =
     (case load_phones ps (Record_init n) of
        Inl e \<Rightarrow> (Inl e, bk)
      | Inr r \<Rightarrow>
          (case (case bd of
                   None \<Rightarrow> Inr r
                 | Some s \<Rightarrow> if s = [] then Inr r else Record_add_birthday s r) of
             Inl e \<Rightarrow> (Inl e, bk)
           | Inr r' \<Rightarrow> load_items items (AList.update n r' bk)))"

definition load_from_disk :: "world \<Rightarrow> (exn + unit) \<times> world" where
  "load_from_disk w =
     (case w_open_error w of
        Some m \<Rightarrow> (Inl (OSError m), w)
      | None \<Rightarrow>
          (case w_file w of
             None \<Rightarrow> (Inr (), w)
           | Some json \<Rightarrow> (case load_items json (w_book w) of (res, bk) \<Rightarrow> (res, w\<lparr>w_book := bk\<rparr>))))"

section \<open>Command handlers\<close>

text \<open>
  A handler takes its arguments and the world, and returns the exception it raises or its
  string, with the world as it is then: what a handler has stored before it raises stays
  stored. \<open>input_error\<close> is the decorator; \<open>f_raw\<close> is the body of the handler \<open>f\<close>.
  \<open>username not in book\<close> holds exactly when \<open>find\<close> returns \<open>None\<close>, and a record is true
  as a condition.
\<close>

type_synonym handler = "string list \<Rightarrow> world \<Rightarrow> (exn + string) \<times> world"

definition input_error :: "handler \<Rightarrow> string list \<Rightarrow> world \<Rightarrow> string \<times> world" where
  "input_error func args w =
     (case func args w of
        (Inr s, w') \<Rightarrow> (s, w')
      | (Inl (ValueError m), w') \<Rightarrow> (''Give me name and phone please.'', w')
      | (Inl (IndexError m), w') \<Rightarrow> (''Give me name and phone please.'', w')
      | (Inl (KeyError m), w') \<Rightarrow> (''Contact not found.'', w')
      | (Inl (OSError m), w') \<Rightarrow> (''Unexpected error: '' @ m, w'))"

definition hello_raw :: handler where
  "hello_raw args w = (Inr ''How can I help you?'', w)"

definition add_raw :: handler where
  "add_raw args w =
     (if length args < 2 then (Inl (ValueError []), w)
      else
        let username = args ! 0; phone = args ! 1;
            (record, bk) =
               (case find (w_book w) username of
                  None \<Rightarrow> (Record_init username, add_record (Record_init username) (w_book w))
                | Some r \<Rightarrow> (r, w_book w))
        in case add_phone phone record of
             Inl e \<Rightarrow> (Inl e, w\<lparr>w_book := bk\<rparr>)
           | Inr r' \<Rightarrow>
               (Inr (''Added '' @ username @ '' with phone number '' @ phone),
                w\<lparr>w_book := AList.update username r' bk\<rparr>))"

definition change_raw :: handler where
  "change_raw args w =
     (if length args < 2 then (Inl (ValueError []), w)
      else
        let username = args ! 0; phone = args ! 1
        in case find (w_book w) username of
             None \<Rightarrow> (Inl (KeyError []), w)
           | Some record \<Rightarrow>
               (case phones record of
                  [] \<Rightarrow> (Inl (IndexError ''list index out of range''), w)
                | p0 # _ \<Rightarrow>
                    (case edit_phone p0 phone record of
                       (Some e, r') \<Rightarrow> (Inl e, w\<lparr>w_book := AList.update username r' (w_book w)\<rparr>)
                     | (None, r') \<Rightarrow>
                         (Inr (''Changed '' @ username @ [CHR 0x27] @ ''s phone number to '' @ phone),
                          w\<lparr>w_book := AList.update username r' (w_book w)\<rparr>))))"

definition phone_raw :: handler where
  "phone_raw args w =
     (if length args = 0 then (Inl (ValueError []), w)
      else
        case find (w_book w) (args ! 0) of
          None \<Rightarrow> (Inl (KeyError []), w)
        | Some record \<Rightarrow>
            (case phones record of
               [] \<Rightarrow> (Inl (IndexError ''list index out of range''), w)
             | p0 # _ \<Rightarrow> (Inr p0, w)))"

definition all_contacts_raw :: handler where
  "all_contacts_raw args w =
     (if w_book w = [] then (Inr ''No contacts saved'', w)
      else (Inr (join [CHR 0x0A] (map (\<lambda>(n, r). Record_str r) (w_book w))), w))"

definition exit_bot_raw :: handler where
  "exit_bot_raw args w = (Inr ''Goodbye!'', w)"

definition add_birthday_raw :: handler where
  "add_birthday_raw args w =
     (if length args < 2 then (Inl (ValueError []), w)
      else
        let username = args ! 0; bday = args ! 1
        in case find (w_book w) username of
             None \<Rightarrow> (Inl (KeyError []), w)
           | Some record \<Rightarrow>
               (case Record_add_birthday bday record of
                  Inl e \<Rightarrow> (Inl e, w)
                | Inr r' \<Rightarrow>
                    (Inr (''Added birthday '' @ bday @ '' for '' @ username),
                     w\<lparr>w_book := AList.update username r' (w_book w)\<rparr>)))"

definition show_birthday_raw :: handler where
  "show_birthday_raw args w =
     (if length args = 0 then (Inl (ValueError []), w)
      else
        case find (w_book w) (args ! 0) of
          None \<Rightarrow> (Inl (KeyError []), w)
        | Some record \<Rightarrow> (Inr (get_birthday (w_platform w) record), w))"

definition birthdays_raw :: handler where
  "birthdays_raw args w =
     (case get_birthdays_per_week (w_today w) (w_book w) of
        Inl e \<Rightarrow> (Inl e, w)
      | Inr bdays \<Rightarrow>
          if bdays = [] then (Inr ''No birthdays in the coming week.'', w)
          else (Inr (join [CHR 0x0A] (map (\<lambda>(wd, ns). wd @ '': '' @ join '', '' ns) bdays)), w))"

definition unknown_command_raw :: handler where
  "unknown_command_raw args w =
     (case args of
        [] \<Rightarrow> (Inl (IndexError ''tuple index out of range''), w)
      | a # _ \<Rightarrow> (Inr (''Unknown command: '' @ a), w))"

definition save_raw :: handler where
  "save_raw args w =
     (case save_to_disk w of
        (Inl e, w') \<Rightarrow> (Inl e, w')
      | (Inr u, w') \<Rightarrow> (Inr ''Address book saved.'', w'))"

definition load_raw :: handler where
  "load_raw args w =
     (case load_from_disk w of
        (Inl e, w') \<Rightarrow> (Inl e, w')
      | (Inr u, w') \<Rightarrow> (Inr ''Address book loaded from disk.'', w'))"

definition hello :: "string list \<Rightarrow> world \<Rightarrow> string \<times> world" where "hello = input_error hello_raw"
definition add :: "string list \<Rightarrow> world \<Rightarrow> string \<times> world" where "add = input_error add_raw"
definition change :: "string list \<Rightarrow> world \<Rightarrow> string \<times> world" where "change = input_error change_raw"
definition phone :: "string list \<Rightarrow> world \<Rightarrow> string \<times> world" where "phone = input_error phone_raw"
definition all_contacts :: "string list \<Rightarrow> world \<Rightarrow> string \<times> world" where "all_contacts = input_error all_contacts_raw"
definition exit_bot :: "string list \<Rightarrow> world \<Rightarrow> string \<times> world" where "exit_bot = input_error exit_bot_raw"
definition add_birthday :: "string list \<Rightarrow> world \<Rightarrow> string \<times> world" where "add_birthday = input_error add_birthday_raw"
definition show_birthday :: "string list \<Rightarrow> world \<Rightarrow> string \<times> world" where "show_birthday = input_error show_birthday_raw"
definition birthdays :: "string list \<Rightarrow> world \<Rightarrow> string \<times> world" where "birthdays = input_error birthdays_raw"
definition unknown_command :: "string list \<Rightarrow> world \<Rightarrow> string \<times> world" where "unknown_command = input_error unknown_command_raw"
definition save :: "string list \<Rightarrow> world \<Rightarrow> string \<times> world" where "save = input_error save_raw"
definition load :: "string list \<Rightarrow> world \<Rightarrow> string \<times> world" where "load = input_error load_raw"

section \<open>Example data\<close>

definition leap_book :: AddressBook where
  "leap_book = [(''Bob'', \<lparr>name = ''Bob'', phones = [], birthday = Some \<lparr>year = 2000, month = 2, day = 29\<rparr>\<rparr>)]"

definition june_book :: AddressBook where
  "june_book =
     [(''Ann'', \<lparr>name = ''Ann'', phones = [''0501234567''], birthday = Some \<lparr>year = 1990, month = 6, day = 15\<rparr>\<rparr>),
      (''Bo'', \<lparr>name = ''Bo'', phones = [], birthday = Some \<lparr>year = 1985, month = 1, day = 1\<rparr>\<rparr>),
      (''Cy'', \<lparr>name = ''Cy'', phones = [], birthday = None\<rparr>),
      (''Di'', \<lparr>name = ''Di'', phones = [], birthday = Some \<lparr>year = 2001, month = 6, day = 12\<rparr>\<rparr>)]"

definition june_10 :: date where
  "june_10 = \<lparr>year = 2024, month = 6, day = 10\<rparr>"

definition three_phones :: Record where
  "three_phones = \<lparr>name = ''Eve'', phones = [''1111111111'', ''2222222222'', ''1111111111''], birthday = None\<rparr>"

definition empty_world :: world where
  "empty_world = \<lparr>w_book = [], w_file = None, w_open_error = None, w_today = june_10, w_platform = Plain_year\<rparr>"

definition old_world :: world where
  "old_world = empty_world\<lparr>w_book :=
     [(''Old'', \<lparr>name = ''Old'', phones = [], birthday = Some \<lparr>year = 999, month = 1, day = 1\<rparr>\<rparr>)]\<rparr>"

definition zed_world :: world where
  "zed_world = empty_world\<lparr>w_book := [(''Zed'', \<lparr>name = ''Zed'', phones = [], birthday = None\<rparr>)]\<rparr>"

section \<open>Properties of the weekly birthday query\<close>

lemma replace_year_Inr: "replace_year b y = Inr x \<Longrightarrow> x = b\<lparr>year := y\<rparr>"
  by (cases b) (auto simp: replace_year_def make_date_def split: if_splits)

lemma bucket_bucket_append:
  "bucket (bucket_append w n bs) v = (if v = w then bucket bs w @ [n] else bucket bs v)"
  by (simp add: bucket_def bucket_append_def update_conv')

lemma birthdays_loop_step:
  assumes "birthdays_loop today ((n, b) # us) acc = Inr res"
  shows "birthdays_loop today us
           (if days_between (occurrence today b) today < 7
            then bucket_append (bucket_name (occurrence today b)) n acc else acc) = Inr res"
proof -
  from assms obtain bty where r1: "replace_year b (year today) = Inr bty"
    by (auto split: sum.splits)
  then have bty: "bty = b\<lparr>year := year today\<rparr>" by (rule replace_year_Inr)
  from assms r1 obtain bty' where
    r2: "(if date_less bty today then replace_year bty (year today + 1) else Inr bty) = Inr bty'"
    by (auto split: sum.splits)
  have "bty' = occurrence today b"
  proof (cases "date_less bty today")
    case True
    with r2 have "replace_year bty (year today + 1) = Inr bty'" by simp
    then have "bty' = bty\<lparr>year := year today + 1\<rparr>" by (rule replace_year_Inr)
    with True bty show ?thesis by (simp add: occurrence_def)
  next
    case False
    with r2 bty show ?thesis by (simp add: occurrence_def)
  qed
  with assms r1 r2 show ?thesis
    by (simp add: bucket_name_def Let_def del: set_simps split: if_splits)
qed

lemma birthdays_loop_bucket:
  "birthdays_loop today us acc = Inr res \<Longrightarrow>
   bucket res w = bucket acc w @
     map fst (filter (\<lambda>(n, b). days_between (occurrence today b) today < 7
                               \<and> bucket_name (occurrence today b) = w) us)"
proof (induction us arbitrary: acc)
  case Nil
  then show ?case by simp
next
  case (Cons u us)
  obtain n b where u: "u = (n, b)" by (cases u)
  from Cons.prems u have
    "birthdays_loop today us
           (if days_between (occurrence today b) today < 7
            then bucket_append (bucket_name (occurrence today b)) n acc else acc) = Inr res"
    using birthdays_loop_step by simp
  from Cons.IH [OF this] u show ?case
    by (auto simp: bucket_bucket_append)
qed

lemma users_of_set:
  "(n, b) \<in> set (users_of book) \<longleftrightarrow> (\<exists>r. (n, r) \<in> set book \<and> birthday r = Some b)"
  by (induction book) (auto simp: users_of_def List.map_filter_simps split: option.splits)

lemma map_of_res_bucket:
  "(\<exists>w ns. map_of res w = Some ns \<and> n \<in> set ns) \<longleftrightarrow> (\<exists>w. n \<in> set (bucket res w))"
proof
  assume "\<exists>w ns. map_of res w = Some ns \<and> n \<in> set ns"
  then obtain w ns where "map_of res w = Some ns" "n \<in> set ns" by blast
  then have "n \<in> set (bucket res w)" by (simp add: bucket_def)
  then show "\<exists>w. n \<in> set (bucket res w)" ..
next
  assume "\<exists>w. n \<in> set (bucket res w)"
  then obtain w where w: "n \<in> set (bucket res w)" ..
  then obtain ns where "map_of res w = Some ns" "n \<in> set ns"
    by (cases "map_of res w") (simp_all add: bucket_def)
  then show "\<exists>w ns. map_of res w = Some ns \<and> n \<in> set ns" by blast
qed

lemma query_bucket:
  assumes "get_birthdays_per_week today book = Inr res"
  shows "n \<in> set (bucket res w) \<longleftrightarrow>
         (\<exists>r b. (n, r) \<in> set book \<and> birthday r = Some b \<and>
            days_between (occurrence today b) today < 7 \<and> bucket_name (occurrence today b) = w)"
proof -
  from assms have "birthdays_loop today (users_of book) [] = Inr res"
    by (simp add: get_birthdays_per_week_def)
  from birthdays_loop_bucket [OF this, of w]
  have "n \<in> set (bucket res w) \<longleftrightarrow>
        (\<exists>b. (n, b) \<in> set (users_of book) \<and> days_between (occurrence today b) today < 7
              \<and> bucket_name (occurrence today b) = w)"
    by (force simp: bucket_def)
  then show ?thesis
    unfolding users_of_set by blast
qed

text \<open>
  C1. When the query returns its buckets, a contact with a set birthday is listed in one of
  them if and only if the whole-day difference between its occurrence and today is strictly
  less than 7, where the occurrence is the birthday with the year replaced by today's year,
  and by today's year + 1 when that date is strictly before today.
\<close>

theorem weekly_birthdays_inclusion:
  assumes "get_birthdays_per_week today book = Inr res"
    and "distinct (map fst book)"
    and "find book n = Some r"
    and "birthday r = Some b"
  shows "(\<exists>w ns. map_of res w = Some ns \<and> n \<in> set ns) \<longleftrightarrow>
         days_between
           (if date_less (b\<lparr>year := year today\<rparr>) today
            then b\<lparr>year := year today + 1\<rparr> else b\<lparr>year := year today\<rparr>) today < 7"
proof -
  have occ: "(if date_less (b\<lparr>year := year today\<rparr>) today
            then b\<lparr>year := year today + 1\<rparr> else b\<lparr>year := year today\<rparr>) = occurrence today b"
    by (simp add: occurrence_def)
  from assms(2,3) have uniq: "\<And>r'. (n, r') \<in> set book \<Longrightarrow> r' = r"
    by (simp add: find_def)
  from assms(3) have mem: "(n, r) \<in> set book"
    by (simp add: find_def map_of_SomeD)
  have "(\<exists>w. n \<in> set (bucket res w)) \<longleftrightarrow> days_between (occurrence today b) today < 7"
  proof
    assume "\<exists>w. n \<in> set (bucket res w)"
    then obtain w r' b' where "(n, r') \<in> set book" "birthday r' = Some b'"
      "days_between (occurrence today b') today < 7"
      unfolding query_bucket [OF assms(1)] by blast
    with uniq assms(4) show "days_between (occurrence today b) today < 7" by simp
  next
    assume "days_between (occurrence today b) today < 7"
    with mem assms(4) have "n \<in> set (bucket res (bucket_name (occurrence today b)))"
      unfolding query_bucket [OF assms(1)] by blast
    then show "\<exists>w. n \<in> set (bucket res w)" ..
  qed
  then show ?thesis
    unfolding occ map_of_res_bucket .
qed


lemma bucket_name_weekday: "bucket_name d \<noteq> ''Saturday''" "bucket_name d \<noteq> ''Sunday''"
  by (simp_all add: bucket_name_def Let_def)

lemma map_of_bucket_append_other:
  "w \<noteq> v \<Longrightarrow> map_of (bucket_append w n bs) v = map_of bs v"
  by (simp add: bucket_append_def update_conv')

lemma birthdays_loop_no_weekend:
  "birthdays_loop today us acc = Inr res \<Longrightarrow> v = ''Saturday'' \<or> v = ''Sunday'' \<Longrightarrow>
   map_of acc v = None \<Longrightarrow> map_of res v = None"
proof (induction us arbitrary: acc)
  case Nil
  then show ?case by simp
next
  case (Cons u us)
  obtain n b where u: "u = (n, b)" by (cases u)
  let ?acc = "if days_between (occurrence today b) today < 7
            then bucket_append (bucket_name (occurrence today b)) n acc else acc"
  from Cons.prems(1) u have step: "birthdays_loop today us ?acc = Inr res"
    using birthdays_loop_step by simp
  from Cons.prems(2) have "bucket_name (occurrence today b) \<noteq> v"
    using bucket_name_weekday [of "occurrence today b"] by auto
  with Cons.prems(3) have "map_of ?acc v = None"
    by (simp add: map_of_bucket_append_other)
  from Cons.IH [OF step Cons.prems(2) this] show ?case .
qed

text \<open>
  C2. A contact whose occurrence falls on a Saturday or a Sunday is listed under Monday exactly
  when the difference in days of the unshifted occurrence is below 7, and the result has no
  Saturday and no Sunday bucket: the reassignment changes the key only.
\<close>

theorem weekend_birthdays_under_monday:
  assumes "get_birthdays_per_week today book = Inr res"
    and "distinct (map fst book)"
    and "find book n = Some r"
    and "birthday r = Some b"
    and "strftime_A (occurrence today b) = ''Saturday'' \<or> strftime_A (occurrence today b) = ''Sunday''"
  shows "(n \<in> set (bucket res ''Monday'') \<longleftrightarrow> days_between (occurrence today b) today < 7)
       \<and> map_of res ''Saturday'' = None \<and> map_of res ''Sunday'' = None"
proof -
  from assms(2,3) have uniq: "\<And>r'. (n, r') \<in> set book \<Longrightarrow> r' = r"
    by (simp add: find_def)
  from assms(3) have mem: "(n, r) \<in> set book"
    by (simp add: find_def map_of_SomeD)
  from assms(5) have bn: "bucket_name (occurrence today b) = ''Monday''"
    by (auto simp: bucket_name_def)
  have loop: "birthdays_loop today (users_of book) [] = Inr res"
    using assms(1) by (simp add: get_birthdays_per_week_def)
  have "n \<in> set (bucket res ''Monday'') \<longleftrightarrow> days_between (occurrence today b) today < 7"
  proof
    assume "n \<in> set (bucket res ''Monday'')"
    then obtain r' b' where "(n, r') \<in> set book" "birthday r' = Some b'"
      "days_between (occurrence today b') today < 7"
      unfolding query_bucket [OF assms(1)] by blast
    with uniq assms(4) show "days_between (occurrence today b) today < 7" by simp
  next
    assume "days_between (occurrence today b) today < 7"
    with mem assms(4) bn show "n \<in> set (bucket res ''Monday'')"
      unfolding query_bucket [OF assms(1)] by blast
  qed
  moreover have "map_of res ''Saturday'' = None"
    by (rule birthdays_loop_no_weekend [OF loop]) simp_all
  moreover have "map_of res ''Sunday'' = None"
    by (rule birthdays_loop_no_weekend [OF loop]) simp_all
  ultimately show ?thesis by simp
qed

lemma june_query:
  "get_birthdays_per_week june_10 june_book = Inr [(''Monday'', [''Ann'']), (''Wednesday'', [''Di''])]"
  by (simp add: get_birthdays_per_week_def june_book_def june_10_def users_of_def List.map_filter_simps
      replace_year_def make_date_def days_in_month_def is_leap_def DAYS_IN_MONTH_def date_less_def
      days_between_def toordinal_def days_before_year_def days_before_month_def strftime_A_def
      weekday_def DAY_NAMES_def bucket_append_def)

theorem weekly_birthdays_inclusion_witness:
  "get_birthdays_per_week june_10 june_book = Inr [(''Monday'', [''Ann'']), (''Wednesday'', [''Di''])]
   \<and> distinct (map fst june_book)
   \<and> find june_book ''Bo'' =
        Some \<lparr>name = ''Bo'', phones = [], birthday = Some \<lparr>year = 1985, month = 1, day = 1\<rparr>\<rparr>
   \<and> \<not> (\<exists>w ns. map_of [(''Monday'', [''Ann'']), (''Wednesday'', [''Di''])] w = Some ns \<and> ''Bo'' \<in> set ns)
   \<and> \<not> days_between \<lparr>year = 2025, month = 1, day = 1\<rparr> june_10 < 7"
proof -
  let ?r = "\<lparr>name = ''Bo'', phones = [], birthday = Some \<lparr>year = 1985, month = 1, day = 1\<rparr>\<rparr>"
  have h1: "get_birthdays_per_week june_10 june_book = Inr [(''Monday'', [''Ann'']), (''Wednesday'', [''Di''])]"
    by (rule june_query)
  have h2: "distinct (map fst june_book)"
    by (simp add: june_book_def)
  have h3: "find june_book ''Bo'' = Some ?r"
    by (simp add: find_def june_book_def)
  have h4: "birthday ?r = Some \<lparr>year = 1985, month = 1, day = 1\<rparr>"
    by simp
  have d: "\<not> days_between \<lparr>year = 2025, month = 1, day = 1\<rparr> june_10 < 7"
    by (simp add: days_between_def toordinal_def days_before_year_def days_before_month_def
        DAYS_IN_MONTH_def is_leap_def june_10_def)
  from weekly_birthdays_inclusion [OF h1 h2 h3 h4] d
  have "\<not> (\<exists>w ns. map_of [(''Monday'', [''Ann'']), (''Wednesday'', [''Di''])] w = Some ns \<and> ''Bo'' \<in> set ns)"
    by (simp add: june_10_def date_less_def)
  with h1 h2 h3 d show ?thesis by simp
qed

theorem weekend_birthdays_under_monday_witness:
  "get_birthdays_per_week june_10 june_book = Inr [(''Monday'', [''Ann'']), (''Wednesday'', [''Di''])]
   \<and> strftime_A (occurrence june_10 \<lparr>year = 1990, month = 6, day = 15\<rparr>) = ''Saturday''
   \<and> ''Ann'' \<in> set (bucket [(''Monday'', [''Ann'']), (''Wednesday'', [''Di''])] ''Monday'')
   \<and> days_between (occurrence june_10 \<lparr>year = 1990, month = 6, day = 15\<rparr>) june_10 = 5"
proof -
  let ?b = "\<lparr>year = 1990, month = 6, day = 15\<rparr>"
  let ?r = "\<lparr>name = ''Ann'', phones = [''0501234567''], birthday = Some ?b\<rparr>"
  have h1: "get_birthdays_per_week june_10 june_book = Inr [(''Monday'', [''Ann'']), (''Wednesday'', [''Di''])]"
    by (rule june_query)
  have h2: "distinct (map fst june_book)"
    by (simp add: june_book_def)
  have h3: "find june_book ''Ann'' = Some ?r"
    by (simp add: find_def june_book_def)
  have h4: "birthday ?r = Some ?b"
    by simp
  have occ: "occurrence june_10 ?b = \<lparr>year = 2024, month = 6, day = 15\<rparr>"
    by (simp add: occurrence_def june_10_def date_less_def)
  have sat: "strftime_A (occurrence june_10 ?b) = ''Saturday''"
    unfolding occ
    by (simp add: strftime_A_def weekday_def toordinal_def days_before_year_def days_before_month_def
        DAYS_IN_MONTH_def is_leap_def DAY_NAMES_def)
  have d: "days_between (occurrence june_10 ?b) june_10 = 5"
    unfolding occ
    by (simp add: days_between_def toordinal_def days_before_year_def days_before_month_def
        DAYS_IN_MONTH_def is_leap_def june_10_def)
  from sat have h5: "strftime_A (occurrence june_10 ?b) = ''Saturday'' \<or> strftime_A (occurrence june_10 ?b) = ''Sunday''"
    by simp
  from weekend_birthdays_under_monday [OF h1 h2 h3 h4 h5] d
  have "''Ann'' \<in> set (bucket [(''Monday'', [''Ann'']), (''Wednesday'', [''Di''])] ''Monday'')"
    by simp
  with h1 sat d show ?thesis by simp
qed

section \<open>Leap-day birthdays\<close>

text \<open>
  C3. A record whose birthday is February 29, queried on a day of a year that is not a leap
  year: the year substitution raises \<open>ValueError\<close> and the query fails with it, instead of
  resolving the birthday to a valid date.
\<close>

theorem leap_day_query_fails:
  "get_birthdays_per_week \<lparr>year = 2023, month = 6, day = 10\<rparr> leap_book
     = Inl (ValueError ''day is out of range for month'')"
  by (simp add: get_birthdays_per_week_def leap_book_def users_of_def List.map_filter_simps
      replace_year_def make_date_def days_in_month_def is_leap_def DAYS_IN_MONTH_def)

section \<open>Properties of phone validation and of the record operations\<close>

lemma Phone_init_Inr: "Phone_init v = Inr p \<Longrightarrow> p = v"
  by (simp add: Phone_init_def split: if_splits)

lemma edit_loop_valid:
  "Phone_init new = Inr p \<Longrightarrow>
   edit_loop i old new ps = (None, take i ps @ map (\<lambda>q. if q = old then p else q) (drop i ps))"
proof (induction i old new ps rule: edit_loop.induct)
  case (1 i old new ps)
  show ?case
  proof (cases "i < length ps")
    case False
    then show ?thesis by (simp add: edit_loop.simps [of i old new ps])
  next
    case True
    then have dr: "drop i ps = ps ! i # drop (Suc i) ps"
      by (simp add: Cons_nth_drop_Suc)
    show ?thesis
    proof (cases "ps ! i = old")
      case hit: True
      from "1.IH"(1) [OF True hit "1.prems" "1.prems"]
      have "edit_loop (i + 1) old new (ps[i := p]) =
              (None, take (i + 1) (ps[i := p]) @ map (\<lambda>q. if q = old then p else q) (drop (i + 1) (ps[i := p])))" .
      moreover have "take (i + 1) (ps[i := p]) = take i ps @ [p]"
        using True by (simp add: take_Suc_conv_app_nth)
      moreover have "drop (i + 1) (ps[i := p]) = drop (Suc i) ps"
        by simp
      ultimately show ?thesis
        using True hit "1.prems" dr by (simp add: edit_loop.simps [of i old new ps])
    next
      case miss: False
      from "1.IH"(2) [OF True miss "1.prems"]
      have "edit_loop (i + 1) old new ps =
              (None, take (i + 1) ps @ map (\<lambda>q. if q = old then p else q) (drop (i + 1) ps))" .
      then show ?thesis
        using True miss dr by (simp add: edit_loop.simps [of i old new ps] take_Suc_conv_app_nth)
    qed
  qed
qed

lemma edit_loop_invalid:
  "Phone_init new = Inl e \<Longrightarrow>
   edit_loop i old new ps = (if old \<in> set (drop i ps) then Some e else None, ps)"
proof (induction i old new ps rule: edit_loop.induct)
  case (1 i old new ps)
  show ?case
  proof (cases "i < length ps")
    case False
    then show ?thesis by (simp add: edit_loop.simps [of i old new ps])
  next
    case True
    then have dr: "drop i ps = ps ! i # drop (Suc i) ps"
      by (simp add: Cons_nth_drop_Suc)
    show ?thesis
    proof (cases "ps ! i = old")
      case hit: True
      then show ?thesis
        using True "1.prems" dr by (simp add: edit_loop.simps [of i old new ps])
    next
      case miss: False
      from "1.IH"(2) [OF True miss "1.prems"] show ?thesis
        using True miss dr by (auto simp add: edit_loop.simps [of i old new ps])
    qed
  qed
qed

text \<open>
  C6, as amended. \<open>edit_phone\<close> replaces every entry equal to the old value by the new phone,
  each in its position, and leaves the other entries as they are. Without a matching entry
  the record is unchanged and nothing is raised, whatever the new value is; with a matching
  entry and an invalid new value the validation error is raised and the record is unchanged.
\<close>

theorem edit_phone_replaces_every_match:
  "edit_phone old new r =
     (if old \<in> set (phones r)
      then (case Phone_init new of
              Inl e \<Rightarrow> (Some e, r)
            | Inr p \<Rightarrow> (None, r\<lparr>phones := map (\<lambda>q. if q = old then p else q) (phones r)\<rparr>))
      else (None, r))"
proof (cases "Phone_init new")
  case (Inl e)
  then show ?thesis
    by (simp add: edit_phone_def edit_loop_invalid)
next
  case (Inr p)
  have "old \<notin> set (phones r) \<Longrightarrow> map (\<lambda>q. if q = old then p else q) (phones r) = phones r"
    by (rule map_idI) auto
  with Inr show ?thesis
    by (auto simp add: edit_phone_def edit_loop_valid)
qed

text \<open>With the old value stored twice, both entries are replaced, not the first alone.\<close>

theorem edit_phone_first_only_counterexample:
  "edit_phone ''1111111111'' ''3333333333'' three_phones
     = (None, three_phones\<lparr>phones := [''3333333333'', ''2222222222'', ''3333333333'']\<rparr>)
   \<and> phones (snd (edit_phone ''1111111111'' ''3333333333'' three_phones))
     \<noteq> replace_first ''1111111111'' ''3333333333'' (phones three_phones)"
  by (simp add: edit_phone_def three_phones_def edit_loop.simps Phone_init_def Phone_validate_def
      is_digit_def at_dollar_def)

text \<open>What \<open>Phone.validate\<close> accepts: ten digits, or ten digits and one final newline.\<close>

lemma Phone_validate_iff:
  "Phone_validate v \<longleftrightarrow>
     (length v = 10 \<and> list_all is_digit v) \<or>
     (\<exists>ds. v = ds @ [CHR 0x0A] \<and> length ds = 10 \<and> list_all is_digit ds)"
proof
  assume a: "Phone_validate v"
  then have l: "10 \<le> length v" and d: "list_all is_digit (take 10 v)"
    and r: "drop 10 v = [] \<or> drop 10 v = [CHR 0x0A]"
    by (auto simp: Phone_validate_def at_dollar_def)
  from r show "(length v = 10 \<and> list_all is_digit v) \<or>
     (\<exists>ds. v = ds @ [CHR 0x0A] \<and> length ds = 10 \<and> list_all is_digit ds)"
  proof
    assume "drop 10 v = []"
    with l d show ?thesis by simp
  next
    assume e: "drop 10 v = [CHR 0x0A]"
    have "v = take 10 v @ drop 10 v" by simp
    with e have "v = take 10 v @ [CHR 0x0A]" by simp
    moreover from l have "length (take 10 v) = 10" by simp
    ultimately show ?thesis using d by blast
  qed
next
  assume "(length v = 10 \<and> list_all is_digit v) \<or>
     (\<exists>ds. v = ds @ [CHR 0x0A] \<and> length ds = 10 \<and> list_all is_digit ds)"
  then show "Phone_validate v"
    by (auto simp: Phone_validate_def at_dollar_def)
qed


text \<open>
  C4. A string of ten digits followed by a newline is not a string of exactly ten digits, and
  \<open>Phone\<close> is constructed from it all the same: \<open>$\<close> matches before the final newline.
\<close>

theorem phone_accepts_trailing_newline:
  "Phone_init (''1234567890'' @ [CHR 0x0A]) = Inr (''1234567890'' @ [CHR 0x0A])"
  by (simp add: Phone_init_def Phone_validate_def is_digit_def at_dollar_def)

text \<open>
  C7. With the value stored at positions 0 and 2, \<open>remove_phone\<close> removes both entries: after
  the first removal the iterator skips the entry that moved into position 0 and goes on
  to the later duplicate, which the claim says stays in place.
\<close>

theorem remove_phone_drops_later_duplicate:
  "remove_phone ''1111111111'' three_phones = three_phones\<lparr>phones := [''2222222222'']\<rparr>"
  by (simp add: remove_phone_def three_phones_def enumerate_eq_zip remove_loop.simps upt_rec)

section \<open>Properties of the command handlers\<close>

lemma update_fresh: "map_of al k = None \<Longrightarrow> AList.update k v al = al @ [(k, v)]"
  by (induction al) auto

text \<open>
  C10. \<open>add\<close> with a name that is not in the book and a phone that fails validation returns
  the message of the validation failure, and the book then holds a new record under that
  name, with no phone and no birthday: the insertion is not undone.
\<close>

theorem add_keeps_record_after_invalid_phone:
  assumes "2 \<le> length args"
    and "find (w_book w) (args ! 0) = None"
    and "\<not> Phone_validate (args ! 1)"
  shows "add args w =
           (''Give me name and phone please.'',
            w\<lparr>w_book := w_book w @ [(args ! 0, \<lparr>name = args ! 0, phones = [], birthday = None\<rparr>)]\<rparr>)"
  using assms
  by (simp add: add_def input_error_def add_raw_def add_phone_def Phone_init_def add_record_def
      Record_init_def find_def update_fresh Let_def)


theorem add_keeps_record_after_invalid_phone_witness:
  "2 \<le> length [''Zed'', ''123''] \<and> find (w_book empty_world) ([''Zed'', ''123''] ! 0) = None
   \<and> \<not> Phone_validate ([''Zed'', ''123''] ! 1)
   \<and> add [''Zed'', ''123''] empty_world =
        (''Give me name and phone please.'',
         empty_world\<lparr>w_book := [(''Zed'', \<lparr>name = ''Zed'', phones = [], birthday = None\<rparr>)]\<rparr>)"
proof -
  have h1: "2 \<le> length [''Zed'', ''123'']" by simp
  have h2: "find (w_book empty_world) ([''Zed'', ''123''] ! 0) = None"
    by (simp add: find_def empty_world_def)
  have h3: "\<not> Phone_validate ([''Zed'', ''123''] ! 1)"
    by (simp add: Phone_validate_def)
  from add_keeps_record_after_invalid_phone [OF h1 h2 h3] h1 h2 h3 show ?thesis
    by (simp add: empty_world_def)
qed

text \<open>
  C9, as amended. The decorator returns the string of the handler, or a message chosen by the
  class of the exception alone, and keeps the world as the handler left it: every
  \<open>ValueError\<close> and every \<open>IndexError\<close> gives the message about name and phone, a
  \<open>KeyError\<close> gives the message that the contact is not found, and any other exception gives
  its text after \<open>Unexpected error: \<close>. Too few arguments and a failed validation raise
  \<open>ValueError\<close>, a missing contact raises \<open>KeyError\<close>, the first phone of a record without
  phones raises \<open>IndexError\<close>, and a file that cannot be opened raises \<open>OSError\<close>.
\<close>

theorem input_error_converts_by_exception_class:
  "fst (input_error func args w) =
     (case fst (func args w) of
        Inr s \<Rightarrow> s
      | Inl (ValueError m) \<Rightarrow> ''Give me name and phone please.''
      | Inl (IndexError m) \<Rightarrow> ''Give me name and phone please.''
      | Inl (KeyError m) \<Rightarrow> ''Contact not found.''
      | Inl (OSError m) \<Rightarrow> ''Unexpected error: '' @ m)
   \<and> snd (input_error func args w) = snd (func args w)
   \<and> (length args < 2 \<longrightarrow>
        fst (add_raw args w) = Inl (ValueError []) \<and> fst (change_raw args w) = Inl (ValueError [])
        \<and> fst (add_birthday_raw args w) = Inl (ValueError []))
   \<and> (args = [] \<longrightarrow>
        fst (phone_raw args w) = Inl (ValueError []) \<and> fst (show_birthday_raw args w) = Inl (ValueError []))
   \<and> (2 \<le> length args \<and> \<not> Phone_validate (args ! 1) \<longrightarrow>
        fst (add_raw args w) = Inl (ValueError ''Phone number must have 10 digits.''))
   \<and> (args \<noteq> [] \<and> find (w_book w) (args ! 0) = None \<longrightarrow>
        fst (phone_raw args w) = Inl (KeyError []) \<and> fst (show_birthday_raw args w) = Inl (KeyError []))
   \<and> (2 \<le> length args \<and> find (w_book w) (args ! 0) = None \<longrightarrow>
        fst (change_raw args w) = Inl (KeyError []) \<and> fst (add_birthday_raw args w) = Inl (KeyError []))
   \<and> (args \<noteq> [] \<and> find (w_book w) (args ! 0) = Some r \<and> phones r = [] \<longrightarrow>
        fst (phone_raw args w) = Inl (IndexError ''list index out of range''))
   \<and> (w_open_error w = Some m \<longrightarrow>
        fst (save_raw args w) = Inl (OSError m) \<and> fst (load_raw args w) = Inl (OSError m))"
proof -
  have wrap: "fst (input_error func args w) =
     (case fst (func args w) of
        Inr s \<Rightarrow> s
      | Inl (ValueError m) \<Rightarrow> ''Give me name and phone please.''
      | Inl (IndexError m) \<Rightarrow> ''Give me name and phone please.''
      | Inl (KeyError m) \<Rightarrow> ''Contact not found.''
      | Inl (OSError m) \<Rightarrow> ''Unexpected error: '' @ m)"
    by (simp add: input_error_def split: prod.splits sum.splits exn.splits)
  have st: "snd (input_error func args w) = snd (func args w)"
    by (simp add: input_error_def split: prod.splits sum.splits exn.splits)
  have arity2: "length args < 2 \<longrightarrow>
        fst (add_raw args w) = Inl (ValueError []) \<and> fst (change_raw args w) = Inl (ValueError [])
        \<and> fst (add_birthday_raw args w) = Inl (ValueError [])"
    by (simp add: add_raw_def change_raw_def add_birthday_raw_def)
  have arity1: "args = [] \<longrightarrow>
        fst (phone_raw args w) = Inl (ValueError []) \<and> fst (show_birthday_raw args w) = Inl (ValueError [])"
    by (simp add: phone_raw_def show_birthday_raw_def)
  have valid: "2 \<le> length args \<and> \<not> Phone_validate (args ! 1) \<longrightarrow>
        fst (add_raw args w) = Inl (ValueError ''Phone number must have 10 digits.'')"
    by (simp add: add_raw_def add_phone_def Phone_init_def Let_def split: option.splits)
  have miss1: "args \<noteq> [] \<and> find (w_book w) (args ! 0) = None \<longrightarrow>
        fst (phone_raw args w) = Inl (KeyError []) \<and> fst (show_birthday_raw args w) = Inl (KeyError [])"
    by (simp add: phone_raw_def show_birthday_raw_def)
  have miss2: "2 \<le> length args \<and> find (w_book w) (args ! 0) = None \<longrightarrow>
        fst (change_raw args w) = Inl (KeyError []) \<and> fst (add_birthday_raw args w) = Inl (KeyError [])"
    by (simp add: change_raw_def add_birthday_raw_def Let_def)
  have empty: "args \<noteq> [] \<and> find (w_book w) (args ! 0) = Some r \<and> phones r = [] \<longrightarrow>
        fst (phone_raw args w) = Inl (IndexError ''list index out of range'')"
    by (simp add: phone_raw_def)
  have os: "w_open_error w = Some m \<longrightarrow>
        fst (save_raw args w) = Inl (OSError m) \<and> fst (load_raw args w) = Inl (OSError m)"
    by (simp add: save_raw_def load_raw_def save_to_disk_def load_from_disk_def)
  from wrap st arity2 arity1 valid miss1 miss2 empty os show ?thesis
    by (intro conjI)
qed

text \<open>
  The \<open>phone\<close> command on a record without phones fails with an \<open>IndexError\<close>, which is
  no failure of arity, of validation or of a missing contact; the answer is the message
  about name and phone, without the text of the error.
\<close>

theorem other_failure_without_text_counterexample:
  "phone_raw [''Zed''] zed_world = (Inl (IndexError ''list index out of range''), zed_world)
   \<and> phone [''Zed''] zed_world = (''Give me name and phone please.'', zed_world)"
  by (simp add: phone_def input_error_def phone_raw_def zed_world_def empty_world_def find_def)


theorem input_error_converts_by_exception_class_witness:
  "fst (phone_raw [''Zed''] zed_world) = Inl (IndexError ''list index out of range'')
   \<and> fst (phone [''Zed''] zed_world) = ''Give me name and phone please.''
   \<and> fst (save [] (empty_world\<lparr>w_open_error := Some ''Permission denied''\<rparr>))
        = ''Unexpected error: Permission denied''
   \<and> fst (add [] empty_world) = ''Give me name and phone please.''
   \<and> fst (phone [''Ann''] empty_world) = ''Contact not found.''"
proof -
  let ?zed = "\<lparr>name = ''Zed'', phones = [], birthday = None\<rparr>"
  let ?ro = "empty_world\<lparr>w_open_error := Some ''Permission denied''\<rparr>"
  note t1 = input_error_converts_by_exception_class [of phone_raw "[''Zed'']" zed_world ?zed "[]"]
  have h1: "[''Zed''] \<noteq> [] \<and> find (w_book zed_world) ([''Zed''] ! 0) = Some ?zed \<and> phones ?zed = []"
    by (simp add: zed_world_def empty_world_def find_def)
  from t1 h1 have a: "fst (phone_raw [''Zed''] zed_world) = Inl (IndexError ''list index out of range'')"
    by blast
  from t1 a have b: "fst (phone [''Zed''] zed_world) = ''Give me name and phone please.''"
    by (simp add: phone_def)
  note t2 = input_error_converts_by_exception_class [of save_raw "[]" ?ro ?zed "''Permission denied''"]
  have h2: "w_open_error ?ro = Some ''Permission denied''"
    by (simp add: empty_world_def)
  from t2 h2 have "fst (save_raw [] ?ro) = Inl (OSError ''Permission denied'')"
    by blast
  with t2 have c: "fst (save [] ?ro) = ''Unexpected error: Permission denied''"
    by (simp add: save_def)
  note t3 = input_error_converts_by_exception_class [of add_raw "[]" empty_world ?zed "[]"]
  then have "fst (add_raw [] empty_world) = Inl (ValueError [])"
    by simp
  with t3 have d: "fst (add [] empty_world) = ''Give me name and phone please.''"
    by (simp add: add_def)
  note t4 = input_error_converts_by_exception_class [of phone_raw "[''Ann'']" empty_world ?zed "[]"]
  have h4: "[''Ann''] \<noteq> [] \<and> find (w_book empty_world) ([''Ann''] ! 0) = None"
    by (simp add: empty_world_def find_def)
  from t4 h4 have "fst (phone_raw [''Ann''] empty_world) = Inl (KeyError [])"
    by blast
  with t4 have e: "fst (phone [''Ann''] empty_world) = ''Contact not found.''"
    by (simp add: phone_def)
  from a b c d e show ?thesis by simp
qed

section \<open>Properties of persistence\<close>

lemmas strptime_eval = Birthday_init_def Birthday_validate_def strptime_def format_regex_match_def
  re_d_def re_m_def re_Y_def re_dot_def is_digit_def py_int_def digit_val_def make_date_def
  days_in_month_def DAYS_IN_MONTH_def is_leap_def

lemmas strftime_eval = Birthday_str_def zfill_def strftime_Y_def digit_char_def str_nat.simps

text \<open>
  C8. A birthday in the year 999 is valid (\<open>Birthday("01.01.0999")\<close> succeeds). Where \<open>%Y\<close> is
  written without padding, \<open>save_to_disk\<close> stores it as \<open>01.01.999\<close>, and \<open>load_from_disk\<close> into
  an empty book then fails with the \<open>ValueError\<close> of \<open>Birthday\<close>: the saved book is not
  reproduced.
\<close>

theorem save_then_load_fails_for_early_year:
  "Birthday_init ''01.01.0999'' = Inr \<lparr>year = 999, month = 1, day = 1\<rparr>
   \<and> save_to_disk old_world = (Inr (), old_world\<lparr>w_file := Some [(''Old'', [], Some ''01.01.999'')]\<rparr>)
   \<and> load_from_disk (empty_world\<lparr>w_file := Some [(''Old'', [], Some ''01.01.999'')]\<rparr>)
       = (Inl (ValueError ''Birthday must be in the format DD.MM.YYYY''),
          empty_world\<lparr>w_file := Some [(''Old'', [], Some ''01.01.999'')]\<rparr>)"
proof -
  have a: "Birthday_init ''01.01.0999'' = Inr \<lparr>year = 999, month = 1, day = 1\<rparr>"
    by (simp add: strptime_eval)
  have b: "save_to_disk old_world = (Inr (), old_world\<lparr>w_file := Some [(''Old'', [], Some ''01.01.999'')]\<rparr>)"
    by (simp add: save_to_disk_def old_world_def empty_world_def to_json_def strftime_eval)
  have c: "Birthday_init ''01.01.999'' = Inl (ValueError ''Birthday must be in the format DD.MM.YYYY'')"
    by (simp add: strptime_eval)
  have d: "load_from_disk (empty_world\<lparr>w_file := Some [(''Old'', [], Some ''01.01.999'')]\<rparr>)
       = (Inl (ValueError ''Birthday must be in the format DD.MM.YYYY''),
          empty_world\<lparr>w_file := Some [(''Old'', [], Some ''01.01.999'')]\<rparr>)"
    by (simp add: load_from_disk_def empty_world_def Record_init_def Record_add_birthday_def c)
  from a b d show ?thesis by simp
qed

end
